theory Spec2Isabelle
  imports Main
begin

section \<open>Data model\<close>

text \<open>
  \<^verbatim>\<open>models/user.py\<close>: the \<^verbatim>\<open>User\<close> row of table \<^verbatim>\<open>auth_users\<close>. The columns
  \<^verbatim>\<open>name\<close>, \<^verbatim>\<open>profile_pic\<close> and \<^verbatim>\<open>password\<close> are nullable (\<^verbatim>\<open>str | None\<close>),
  \<^verbatim>\<open>email\<close> is not. The primary key comes from \<^verbatim>\<open>models.base.Base\<close>, which is not
  part of the sources at hand; it is kept as the field \<open>user_id\<close>.
\<close>

record user =
  user_id :: nat
  name :: "string option"
  email :: string
  profile_pic :: "string option"
  password :: "string option"

text \<open>
  \<^verbatim>\<open>settings.py\<close>, class \<^verbatim>\<open>Settings\<close>: the fields read by the authentication flow
  (JWT settings and the two auth switches). The database, encryption, e-mail backend
  and custom-model fields play no part in \<^verbatim>\<open>UserService\<close> and are left out.
\<close>

record settings =
  jwt_secret_key :: string
  jwt_algorithm :: string
  jwt_access_token_expire_minutes :: int
  jwt_refresh_token_expire_minutes :: int
  jwt_audience :: string
  passwordless_login_enabled :: bool
  email_verification_required :: bool

text \<open>The defaults of \<^verbatim>\<open>Settings\<close>; \<^verbatim>\<open>jwt_secret_key\<close> has none and is an argument.\<close>

definition default_settings :: "string \<Rightarrow> settings" where
  "default_settings key =
     \<lparr>jwt_secret_key = key,
      jwt_algorithm = ''HS256'',
      jwt_access_token_expire_minutes = 30,
      jwt_refresh_token_expire_minutes = 60 * 24 * 30,
      jwt_audience = ''fastapi-auth'',
      passwordless_login_enabled = False,
      email_verification_required = False\<rparr>"

text \<open>
  Modelled from the spec: \<^verbatim>\<open>schemas/user.py\<close> is missing. \<^verbatim>\<open>UserPasswordLoginSchema\<close>
  carries the two required request fields \<^verbatim>\<open>email\<close> and \<^verbatim>\<open>password\<close> (read as
  \<^verbatim>\<open>user_login.email\<close>, \<^verbatim>\<open>user_login.password\<close>). \<^verbatim>\<open>UserSignupSchema\<close> is built in
  \<^verbatim>\<open>log_user_in\<close> from an e-mail alone, so every other field is optional.
\<close>

record UserPasswordLoginSchema =
  login_email :: string
  login_password :: string

record UserSignupSchema =
  signup_email :: string
  signup_password :: "string option"
  signup_name :: "string option"

text \<open>\<^verbatim>\<open>UserSignupSchema(email=e)\<close>: the constructor call of \<^verbatim>\<open>log_user_in\<close>, line 35.\<close>

definition UserSignupSchema_of_email :: "string \<Rightarrow> UserSignupSchema" where
  "UserSignupSchema_of_email e =
     \<lparr>signup_email = e, signup_password = None, signup_name = None\<rparr>"

text \<open>
  Exceptions are values. \<^verbatim>\<open>HTTPException\<close> carries \<^verbatim>\<open>status_code\<close> and \<^verbatim>\<open>detail\<close>;
  the service raises four of them, told apart by these two fields:
  404 "No user exists with the given email.", 400 "User already exists.",
  400 "Password is required." and 401 "Invalid credentials".
  The other constructors are what the collaborators may raise.
\<close>

datatype exn =
    HTTPException int string
  | IntegrityError
  | AttributeError
  | CorruptCredentialError

text \<open>
  The Python objects that the local variable \<^verbatim>\<open>user\<close> is bound to in the service.
  \<^verbatim>\<open>await repository.get_user_by_email(...)\<close> yields \<^verbatim>\<open>None\<close> or a \<^verbatim>\<open>User\<close>.
  The same call written without \<^verbatim>\<open>await\<close> yields the coroutine object itself:
  the body of an \<^verbatim>\<open>async def\<close> does not run until it is awaited, and the caller
  holds a suspended computation (here tagged with the value it would produce).
\<close>

datatype pyobj = PyNone | PyUser user | PyCoroutine "user option"

text \<open>
  Python truth testing (\<^verbatim>\<open>if user\<close>, \<^verbatim>\<open>if not user\<close>): \<^verbatim>\<open>None\<close> is false; an object
  whose class defines neither \<^verbatim>\<open>__bool__\<close> nor \<^verbatim>\<open>__len__\<close> is true. That holds
  for an ORM row and for a coroutine object.
\<close>

fun truthy :: "pyobj \<Rightarrow> bool" where
  "truthy PyNone = False"
| "truthy (PyUser u) = True"
| "truthy (PyCoroutine c) = True"

section \<open>Collaborators of the service\<close>

text \<open>
  \<^verbatim>\<open>utils/password.py\<close> and \<^verbatim>\<open>utils/jwt.py\<close> are missing; the service only calls
  them. They are parameters of the model, so every theorem below holds for any
  implementation of them:
  \<^item> \<open>verify_password password hashed_password\<close> returns a bool or raises;
  \<^item> \<open>hash_password\<close> is the hash the repository stores instead of the plaintext;
  \<^item> \<open>generate_jwt_token user settings\<close> returns the response schema or raises.
\<close>

record 'r collaborators =
  verify_password :: "string \<Rightarrow> string \<Rightarrow> exn + bool"
  hash_password :: "string \<Rightarrow> string"
  generate_jwt_token :: "pyobj \<Rightarrow> settings \<Rightarrow> exn + 'r"

text \<open>
  Modelled from the spec: \<^verbatim>\<open>repositories/user_repository.py\<close> is missing. The
  repository persists user records and retrieves them by their unique e-mail:
  \<^verbatim>\<open>get_user_by_email(email) -> User | None\<close>, \<^verbatim>\<open>create_user(signup_data) -> User\<close>.
  The stored records are a list in insertion order. \<open>create_user\<close> stores a hash of
  the password, never the plaintext, and the storage layer enforces the uniqueness
  of e-mails (the unique index of \<^verbatim>\<open>models/user.py\<close>).
\<close>

type_synonym repository = "user list"

definition get_user_by_email :: "repository \<Rightarrow> string \<Rightarrow> user option" where
  "get_user_by_email db e = find (\<lambda>u. email u = e) db"

definition fresh_id :: "repository \<Rightarrow> nat" where
  "fresh_id db = Suc (fold max (map user_id db) 0)"

definition create_user ::
  "(string \<Rightarrow> string) \<Rightarrow> repository \<Rightarrow> UserSignupSchema \<Rightarrow> (exn + user) \<times> repository" where
  "create_user hash db s =
     (case get_user_by_email db (signup_email s) of
        Some existing \<Rightarrow> (Inl IntegrityError, db)
      | None \<Rightarrow>
          (let u = \<lparr>user_id = fresh_id db,
                    name = signup_name s,
                    email = signup_email s,
                    profile_pic = None,
                    password = map_option hash (signup_password s)\<rparr>
           in (Inr u, db @ [u])))"

section \<open>The authentication service\<close>

text \<open>
  \<^verbatim>\<open>services/user_service.py\<close>, class \<^verbatim>\<open>UserService\<close>. \<open>self.repository\<close> is the
  repository state, passed in and returned; \<open>self.settings\<close> is \<open>st\<close>. A call
  returns \<open>(Inl e, db')\<close> when it raises \<open>e\<close> and \<open>(Inr r, db')\<close> when it returns \<open>r\<close>.

  \<^verbatim>\<open>signup_user\<close>, lines 49 to 68, in the order of the source:
  \<^item> line 50 binds \<^verbatim>\<open>user\<close> to \<^verbatim>\<open>self.repository.get_user_by_email(...)\<close> with no
    \<^verbatim>\<open>await\<close> (line 25 of \<^verbatim>\<open>log_user_in\<close> awaits the same method), so \<^verbatim>\<open>user\<close> is a
    coroutine object;
  \<^item> lines 53 and 61 are \<^verbatim>\<open>if ...: pass\<close>;
  \<^item> line 57 tests \<^verbatim>\<open>if user\<close> and raises 400 "User already exists.";
  \<^item> line 65 awaits \<^verbatim>\<open>create_user\<close> and drops the row it returns;
  \<^item> line 68 calls \<^verbatim>\<open>generate_jwt_token\<close> on \<^verbatim>\<open>user\<close>, the object bound at line 50.
\<close>

definition signup_user ::
  "'r collaborators \<Rightarrow> settings \<Rightarrow> UserSignupSchema \<Rightarrow> repository \<Rightarrow> (exn + 'r) \<times> repository" where
  "signup_user C st user_signup db =
     (let user = PyCoroutine (get_user_by_email db (signup_email user_signup))
      in if truthy user then (Inl (HTTPException 400 ''User already exists.''), db)
         else
           (case create_user (hash_password C) db user_signup of
              (Inl e, db') \<Rightarrow> (Inl e, db')
            | (Inr created, db') \<Rightarrow> (generate_jwt_token C user st, db')))"

text \<open>
  \<^verbatim>\<open>log_user_in\<close>, lines 22 to 47:
  \<^item> line 25 awaits the lookup; lines 28 to 31 raise 404 when \<^verbatim>\<open>not user\<close>;
  \<^item> lines 34 and 35: under \<^verbatim>\<open>passwordless_login_enabled\<close> the service awaits
    \<^verbatim>\<open>signup_user\<close> for the same e-mail; an exception of that call leaves
    \<^verbatim>\<open>log_user_in\<close>, a returned value is dropped;
  \<^item> lines 37 and 38 raise 400 when \<^verbatim>\<open>not user.password\<close> (the column is \<^verbatim>\<open>None\<close>
    or the empty string);
  \<^item> lines 41 to 44 raise 401 when \<^verbatim>\<open>verify_password\<close> returns false;
  \<^item> line 47 returns the token generated for \<^verbatim>\<open>user\<close>.
\<close>

definition log_user_in ::
  "'r collaborators \<Rightarrow> settings \<Rightarrow> UserPasswordLoginSchema \<Rightarrow> repository \<Rightarrow> (exn + 'r) \<times> repository" where
  "log_user_in C st user_login db =
     (case get_user_by_email db (login_email user_login) of
        None \<Rightarrow> (Inl (HTTPException 404 ''No user exists with the given email.''), db)
      | Some user \<Rightarrow>
          (case (if passwordless_login_enabled st
                 then (case signup_user C st (UserSignupSchema_of_email (login_email user_login)) db of
                         (Inl e, db') \<Rightarrow> (Some e, db')
                       | (Inr dropped, db') \<Rightarrow> (None, db'))
                 else (None, db)) of
             (Some e, db') \<Rightarrow> (Inl e, db')
           | (None, db') \<Rightarrow>
               (case password user of
                  None \<Rightarrow> (Inl (HTTPException 400 ''Password is required.''), db')
                | Some hashed_password \<Rightarrow>
                    if hashed_password = [] then
                      (Inl (HTTPException 400 ''Password is required.''), db')
                    else
                      (case verify_password C (login_password user_login) hashed_password of
                         Inl e \<Rightarrow> (Inl e, db')
                       | Inr ok \<Rightarrow>
                           if \<not> ok then (Inl (HTTPException 401 ''Invalid credentials''), db')
                           else (generate_jwt_token C (PyUser user) st, db')))))"

section \<open>Token issuer and validation\<close>

text \<open>
  Modelled from the spec: \<^verbatim>\<open>utils/jwt.py\<close> is missing, and so is a validation
  routine. The spec's Token Issuer takes the user identity, the configured signing
  key, algorithm and audience, and an expiry policy with distinct lifetimes for access
  and refresh tokens; the claims are subject, audience, issued-at, expiry and an
  algorithm tag; expiry is issued-at plus the configured lifetime. The lifetimes of
  \<^verbatim>\<open>settings.py\<close> are minutes; instants are seconds.
\<close>

datatype token_type = Access | Refresh

record claims =
  claim_sub :: string
  claim_aud :: string
  claim_iat :: int
  claim_exp :: int
  claim_alg :: string

datatype TokenError = Expired | BadSignature | Malformed

text \<open>
  Modelled from the spec: the session credential is an opaque encoded string. A string
  that decodes carries claims and a signature; every other string is \<open>Undecodable\<close>.
  The signing primitive (key and claims to signature) is a parameter.
\<close>

datatype session_credential = Encoded claims string | Undecodable string

definition ttl_seconds :: "settings \<Rightarrow> token_type \<Rightarrow> int" where
  "ttl_seconds st k =
     60 * (case k of Access \<Rightarrow> jwt_access_token_expire_minutes st
                   | Refresh \<Rightarrow> jwt_refresh_token_expire_minutes st)"

definition issue ::
  "(string \<Rightarrow> claims \<Rightarrow> string) \<Rightarrow> settings \<Rightarrow> token_type \<Rightarrow> string \<Rightarrow> int
     \<Rightarrow> session_credential \<times> claims" where
  "issue sign st k identity now =
     (let c = \<lparr>claim_sub = identity,
               claim_aud = jwt_audience st,
               claim_iat = now,
               claim_exp = now + ttl_seconds st k,
               claim_alg = jwt_algorithm st\<rparr>
      in (Encoded c (sign (jwt_secret_key st) c), c))"

text \<open>
  Modelled from the spec: \<^verbatim>\<open>validate(token) -> claims | TokenError\<close>, where the error
  is one of \<open>Expired\<close>, \<open>BadSignature\<close> and \<open>Malformed\<close>. A credential is verifiable
  only with the signing key of the issuing instance and is rejected once its expiry
  is reached.
\<close>

definition validate ::
  "(string \<Rightarrow> claims \<Rightarrow> string) \<Rightarrow> settings \<Rightarrow> int \<Rightarrow> session_credential
     \<Rightarrow> TokenError + claims" where
  "validate sign st now tok =
     (case tok of
        Undecodable raw \<Rightarrow> Inl Malformed
      | Encoded c sg \<Rightarrow>
          if sg \<noteq> sign (jwt_secret_key st) c then Inl BadSignature
          else if claim_exp c \<le> now then Inl Expired
          else Inr c)"

section \<open>Sample collaborators and inputs\<close>

text \<open>
  One concrete choice of the collaborators, for evaluating the service on inputs:
  the hash prefixes the plaintext, verification recomputes it, and the token
  generator reads the e-mail of a \<^verbatim>\<open>User\<close> (any other object has no such attribute).
\<close>

definition sample_hash :: "string \<Rightarrow> string" where
  "sample_hash p = ''h$'' @ p"

definition sample_generate :: "pyobj \<Rightarrow> settings \<Rightarrow> exn + string" where
  "sample_generate obj st =
     (case obj of PyUser u \<Rightarrow> Inr (''jwt:'' @ email u)
                | PyNone \<Rightarrow> Inl AttributeError
                | PyCoroutine c \<Rightarrow> Inl AttributeError)"

definition sample_collaborators :: "string collaborators" where
  "sample_collaborators =
     \<lparr>verify_password = (\<lambda>p h. Inr (h = sample_hash p)),
      hash_password = sample_hash,
      generate_jwt_token = sample_generate\<rparr>"

definition sample_sign :: "string \<Rightarrow> claims \<Rightarrow> string" where
  "sample_sign key c = key @ claim_sub c @ claim_aud c"

definition passwordless_settings :: settings where
  "passwordless_settings = (default_settings ''k'')\<lparr>passwordless_login_enabled := True\<rparr>"

definition alice :: user where
  "alice = \<lparr>user_id = 1, name = None, email = ''a@x.com'', profile_pic = None,
            password = Some (sample_hash ''p1'')\<rparr>"

definition carol :: user where
  "carol = \<lparr>user_id = 2, name = None, email = ''c@x.com'', profile_pic = None,
            password = None\<rparr>"

section \<open>Evaluation of the samples\<close>

lemma passwordless_settings_flag: "passwordless_login_enabled passwordless_settings"
  by (simp add: passwordless_settings_def default_settings_def)

lemma default_settings_flag: "\<not> passwordless_login_enabled (default_settings key)"
  by (simp add: default_settings_def)

lemma lookup_alice: "get_user_by_email [alice, carol] ''a@x.com'' = Some alice"
  by (simp add: get_user_by_email_def alice_def)

lemma lookup_carol: "get_user_by_email [alice, carol] ''c@x.com'' = Some carol"
  by (simp add: get_user_by_email_def alice_def carol_def)

lemma lookup_unknown: "get_user_by_email [alice, carol] ''b@x.com'' = None"
  by (simp add: get_user_by_email_def alice_def carol_def)

lemma password_alice: "password alice = Some ''h$p1''"
  by (simp add: alice_def sample_hash_def)

lemma password_carol: "password carol = None"
  by (simp add: carol_def)

lemma sample_verify_wrong:
  "verify_password sample_collaborators ''wrong'' ''h$p1'' = Inr False"
  by (simp add: sample_collaborators_def sample_hash_def)

section \<open>Signup\<close>

text \<open>
  C2. Claim: a signup whose e-mail is not yet in the repository succeeds, creates the
  user record and returns a credential for the new user. The code does not: on the
  empty repository, \<^verbatim>\<open>signup_user\<close> for \<^verbatim>\<open>a@x.com\<close> with password \<^verbatim>\<open>p1\<close> raises
  400 "User already exists." and stores nothing, because the lookup of line 50 is not
  awaited and the coroutine object it binds is true at line 57.
\<close>

theorem signup_fresh_email_raises_duplicate:
  "signup_user sample_collaborators (default_settings ''k'')
     \<lparr>signup_email = ''a@x.com'', signup_password = Some ''p1'', signup_name = None\<rparr> []
   = (Inl (HTTPException 400 ''User already exists.''), [])"
  by (simp add: signup_user_def)

text \<open>
  C3. A signup whose e-mail already belongs to a stored user raises 400
  "User already exists." and returns the repository as it was: no record is created.
\<close>

theorem signup_existing_email_duplicate:
  "get_user_by_email db (signup_email user_signup) = Some existing \<Longrightarrow>
   signup_user C st user_signup db = (Inl (HTTPException 400 ''User already exists.''), db)"
  by (simp add: signup_user_def)

theorem signup_existing_email_duplicate_witness:
  "get_user_by_email [alice, carol]
     (signup_email \<lparr>signup_email = ''a@x.com'', signup_password = Some ''p2'', signup_name = None\<rparr>)
     = Some alice
   \<and> signup_user sample_collaborators (default_settings ''k'')
        \<lparr>signup_email = ''a@x.com'', signup_password = Some ''p2'', signup_name = None\<rparr>
        [alice, carol]
      = (Inl (HTTPException 400 ''User already exists.''), [alice, carol])"
proof -
  have h: "get_user_by_email [alice, carol]
     (signup_email \<lparr>signup_email = ''a@x.com'', signup_password = Some ''p2'', signup_name = None\<rparr>)
     = Some alice"
    by (simp add: lookup_alice)
  show ?thesis
    using h signup_existing_email_duplicate [OF h, of sample_collaborators "default_settings ''k''"]
    by simp
qed

section \<open>Login\<close>

text \<open>
  C1. Claim: with \<^verbatim>\<open>passwordless_login_enabled\<close>, a login for an e-mail without a user
  record provisions the account and returns a credential. The code does not: the 404
  check of lines 28 to 31 comes before the passwordless branch of lines 34 and 35, so
  on the empty repository the login of \<^verbatim>\<open>new@x.com\<close> with the empty password raises
  404 and stores nothing.
\<close>

theorem passwordless_login_unknown_email_raises_not_found:
  "log_user_in sample_collaborators passwordless_settings
     \<lparr>login_email = ''new@x.com'', login_password = []\<rparr> []
   = (Inl (HTTPException 404 ''No user exists with the given email.''), [])"
  by (simp add: log_user_in_def get_user_by_email_def)

text \<open>
  C4. With \<^verbatim>\<open>passwordless_login_enabled\<close>, every login for an e-mail that has a user
  record runs the signup path for that e-mail, which raises 400 "User already exists.";
  the exception leaves \<^verbatim>\<open>log_user_in\<close> before the password is looked at (the result
  does not depend on \<open>verify_password\<close>), so no such login returns a credential.
\<close>

theorem passwordless_login_existing_email_duplicate:
  "passwordless_login_enabled st \<Longrightarrow>
   get_user_by_email db (login_email user_login) = Some existing \<Longrightarrow>
   log_user_in C st user_login db = (Inl (HTTPException 400 ''User already exists.''), db)"
  by (simp add: log_user_in_def signup_user_def)

theorem passwordless_login_existing_email_duplicate_witness:
  "passwordless_login_enabled passwordless_settings
   \<and> get_user_by_email [alice, carol]
        (login_email \<lparr>login_email = ''a@x.com'', login_password = ''p1''\<rparr>) = Some alice
   \<and> log_user_in sample_collaborators passwordless_settings
        \<lparr>login_email = ''a@x.com'', login_password = ''p1''\<rparr> [alice, carol]
      = (Inl (HTTPException 400 ''User already exists.''), [alice, carol])"
proof -
  have f: "passwordless_login_enabled passwordless_settings"
    by (rule passwordless_settings_flag)
  have h: "get_user_by_email [alice, carol]
        (login_email \<lparr>login_email = ''a@x.com'', login_password = ''p1''\<rparr>) = Some alice"
    by (simp add: lookup_alice)
  show ?thesis
    using f h passwordless_login_existing_email_duplicate [OF f h, of sample_collaborators]
    by simp
qed

text \<open>
  C5. A login whose e-mail has no user record raises 404
  "No user exists with the given email.", whatever the settings.
\<close>

theorem login_unknown_email_not_found:
  "get_user_by_email db (login_email user_login) = None \<Longrightarrow>
   log_user_in C st user_login db
     = (Inl (HTTPException 404 ''No user exists with the given email.''), db)"
  by (simp add: log_user_in_def)

theorem login_unknown_email_not_found_witness:
  "get_user_by_email [alice, carol]
     (login_email \<lparr>login_email = ''b@x.com'', login_password = ''x''\<rparr>) = None
   \<and> log_user_in sample_collaborators (default_settings ''k'')
        \<lparr>login_email = ''b@x.com'', login_password = ''x''\<rparr> [alice, carol]
      = (Inl (HTTPException 404 ''No user exists with the given email.''), [alice, carol])"
proof -
  have h: "get_user_by_email [alice, carol]
     (login_email \<lparr>login_email = ''b@x.com'', login_password = ''x''\<rparr>) = None"
    by (simp add: lookup_unknown)
  show ?thesis
    using h login_unknown_email_not_found [OF h, of sample_collaborators "default_settings ''k''"]
    by simp
qed

text \<open>
  C6. Claim: every login for a stored user without a password hash fails with the
  password-required error, 400 "Password is required." (lines 37 and 38, which carry
  no condition on the settings). The code does not under
  \<^verbatim>\<open>passwordless_login_enabled\<close>: the login of \<^verbatim>\<open>c@x.com\<close>, stored without a
  password, is answered by the signup call of lines 34 and 35 with the duplicate-user
  error, 400 "User already exists.", and line 37 is never reached. The two errors
  share the status 400 and differ in kind and detail.
\<close>

theorem passwordless_login_without_hash_raises_duplicate:
  "get_user_by_email [alice, carol] ''c@x.com'' = Some carol
   \<and> password carol = None
   \<and> log_user_in sample_collaborators passwordless_settings
        \<lparr>login_email = ''c@x.com'', login_password = []\<rparr> [alice, carol]
      = (Inl (HTTPException 400 ''User already exists.''), [alice, carol])
   \<and> fst (log_user_in sample_collaborators passwordless_settings
        \<lparr>login_email = ''c@x.com'', login_password = []\<rparr> [alice, carol])
      \<noteq> Inl (HTTPException 400 ''Password is required.'')"
  by (simp add: log_user_in_def signup_user_def lookup_carol password_carol
        passwordless_settings_flag)

text \<open>
  The sibling path: when \<^verbatim>\<open>passwordless_login_enabled\<close> is false, lines 37 and 38 are
  reached, and every login for a stored user whose \<^verbatim>\<open>password\<close> column is \<^verbatim>\<open>None\<close>
  raises 400 "Password is required." and leaves the repository as it was.
\<close>

lemma login_without_hash_password_required:
  "\<not> passwordless_login_enabled st \<Longrightarrow>
   get_user_by_email db (login_email user_login) = Some existing \<Longrightarrow>
   password existing = None \<Longrightarrow>
   log_user_in C st user_login db = (Inl (HTTPException 400 ''Password is required.''), db)"
  by (simp add: log_user_in_def)

lemma login_without_hash_password_required_sample:
  "\<not> passwordless_login_enabled (default_settings ''k'')
   \<and> get_user_by_email [alice, carol]
        (login_email \<lparr>login_email = ''c@x.com'', login_password = []\<rparr>) = Some carol
   \<and> password carol = None
   \<and> log_user_in sample_collaborators (default_settings ''k'')
        \<lparr>login_email = ''c@x.com'', login_password = []\<rparr> [alice, carol]
      = (Inl (HTTPException 400 ''Password is required.''), [alice, carol])"
proof -
  have f: "\<not> passwordless_login_enabled (default_settings ''k'')"
    by (rule default_settings_flag)
  have h: "get_user_by_email [alice, carol]
        (login_email \<lparr>login_email = ''c@x.com'', login_password = []\<rparr>) = Some carol"
    by (simp add: lookup_carol)
  have p: "password carol = None"
    by (rule password_carol)
  show ?thesis
    using f h p login_without_hash_password_required [OF f h p, of sample_collaborators]
    by simp
qed

text \<open>
  C7. Claim: every login for a stored user with a password hash that the submitted
  password does not verify against fails with 401 "Invalid credentials" (lines 41 to
  44, which carry no condition on the settings). The code does not under
  \<^verbatim>\<open>passwordless_login_enabled\<close>: the login of \<^verbatim>\<open>a@x.com\<close> with a wrong password is
  answered by the signup call of lines 34 and 35 with 400 "User already exists.", and
  the password is never verified.
\<close>

theorem passwordless_login_wrong_password_raises_duplicate:
  "get_user_by_email [alice, carol] ''a@x.com'' = Some alice
   \<and> password alice = Some ''h$p1''
   \<and> verify_password sample_collaborators ''wrong'' ''h$p1'' = Inr False
   \<and> log_user_in sample_collaborators passwordless_settings
        \<lparr>login_email = ''a@x.com'', login_password = ''wrong''\<rparr> [alice, carol]
      = (Inl (HTTPException 400 ''User already exists.''), [alice, carol])
   \<and> fst (log_user_in sample_collaborators passwordless_settings
        \<lparr>login_email = ''a@x.com'', login_password = ''wrong''\<rparr> [alice, carol])
      \<noteq> Inl (HTTPException 401 ''Invalid credentials'')"
  by (simp add: log_user_in_def signup_user_def lookup_alice password_alice
        sample_verify_wrong passwordless_settings_flag)

text \<open>
  The sibling path: when \<^verbatim>\<open>passwordless_login_enabled\<close> is false, lines 41 to 44 are
  reached, and every login for a stored user with a password hash for which
  \<open>verify_password\<close> returns false raises 401 "Invalid credentials"; the call raises,
  so it returns no credential, and the repository is as it was. The hash is taken
  non-empty, as line 37 (\<^verbatim>\<open>not user.password\<close>) counts the empty string as no hash.
\<close>

lemma login_wrong_password_invalid_credentials:
  "\<not> passwordless_login_enabled st \<Longrightarrow>
   get_user_by_email db (login_email user_login) = Some existing \<Longrightarrow>
   password existing = Some hashed \<Longrightarrow>
   hashed \<noteq> [] \<Longrightarrow>
   verify_password C (login_password user_login) hashed = Inr False \<Longrightarrow>
   log_user_in C st user_login db = (Inl (HTTPException 401 ''Invalid credentials''), db)"
  by (simp add: log_user_in_def)

lemma login_wrong_password_invalid_credentials_sample:
  "\<not> passwordless_login_enabled (default_settings ''k'')
   \<and> get_user_by_email [alice, carol]
        (login_email \<lparr>login_email = ''a@x.com'', login_password = ''wrong''\<rparr>) = Some alice
   \<and> password alice = Some ''h$p1''
   \<and> ''h$p1'' \<noteq> []
   \<and> verify_password sample_collaborators
        (login_password \<lparr>login_email = ''a@x.com'', login_password = ''wrong''\<rparr>) ''h$p1''
      = Inr False
   \<and> log_user_in sample_collaborators (default_settings ''k'')
        \<lparr>login_email = ''a@x.com'', login_password = ''wrong''\<rparr> [alice, carol]
      = (Inl (HTTPException 401 ''Invalid credentials''), [alice, carol])"
proof -
  have f: "\<not> passwordless_login_enabled (default_settings ''k'')"
    by (rule default_settings_flag)
  have h: "get_user_by_email [alice, carol]
        (login_email \<lparr>login_email = ''a@x.com'', login_password = ''wrong''\<rparr>) = Some alice"
    by (simp add: lookup_alice)
  have p: "password alice = Some ''h$p1''"
    by (rule password_alice)
  have n: "''h$p1'' \<noteq> []"
    by simp
  have v: "verify_password sample_collaborators
        (login_password \<lparr>login_email = ''a@x.com'', login_password = ''wrong''\<rparr>) ''h$p1''
      = Inr False"
    by (simp add: sample_verify_wrong)
  show ?thesis
    using f h p n v login_wrong_password_invalid_credentials [OF f h p n v]
    by simp
qed

text \<open>
  C9. When \<^verbatim>\<open>passwordless_login_enabled\<close> is false, \<^verbatim>\<open>log_user_in\<close> returns the
  repository it was given on every path, raising or not: the stored records after the
  call are the stored records before it.
\<close>

theorem login_leaves_repository:
  "\<not> passwordless_login_enabled st \<Longrightarrow> snd (log_user_in C st user_login db) = db"
  by (simp add: log_user_in_def split: option.splits sum.splits)

theorem login_leaves_repository_witness:
  "\<not> passwordless_login_enabled (default_settings ''k'')
   \<and> snd (log_user_in sample_collaborators (default_settings ''k'')
        \<lparr>login_email = ''a@x.com'', login_password = ''p1''\<rparr> [alice, carol]) = [alice, carol]"
proof -
  have f: "\<not> passwordless_login_enabled (default_settings ''k'')"
    by (rule default_settings_flag)
  show ?thesis
    using f login_leaves_repository [OF f, of sample_collaborators
        "\<lparr>login_email = ''a@x.com'', login_password = ''p1''\<rparr>" "[alice, carol]"]
    by simp
qed

section \<open>Token round trip\<close>

text \<open>
  C8. Validating, with the settings it was issued under, a credential issued for an
  identity at instant \<open>t0\<close>: before the expiry \<open>t0 + ttl\<close> the result is the claims
  built at issue, whose subject is that identity; from the expiry on the result is
  \<open>Expired\<close>.
\<close>

theorem token_round_trip:
  "validate sign st t (fst (issue sign st k identity t0)) =
     (if t < t0 + ttl_seconds st k
      then Inr \<lparr>claim_sub = identity,
                claim_aud = jwt_audience st,
                claim_iat = t0,
                claim_exp = t0 + ttl_seconds st k,
                claim_alg = jwt_algorithm st\<rparr>
      else Inl Expired)"
  by (simp add: validate_def issue_def Let_def)

theorem token_round_trip_witness:
  "validate sample_sign (default_settings ''k'') 1799
     (fst (issue sample_sign (default_settings ''k'') Access ''a@x.com'' 0))
   = Inr \<lparr>claim_sub = ''a@x.com'', claim_aud = ''fastapi-auth'', claim_iat = 0,
           claim_exp = 1800, claim_alg = ''HS256''\<rparr>
   \<and> validate sample_sign (default_settings ''k'') 1800
       (fst (issue sample_sign (default_settings ''k'') Access ''a@x.com'' 0))
     = Inl Expired"
  using token_round_trip [of sample_sign "default_settings ''k''" 1799 Access "''a@x.com''" 0]
        token_round_trip [of sample_sign "default_settings ''k''" 1800 Access "''a@x.com''" 0]
  by (simp add: ttl_seconds_def default_settings_def)

end
